theory Spec2Isabelle
  imports Complex_Main
begin

section \<open>Values\<close>

text \<open>
  A Python/NumPy float is either NaN or a number. Numbers are modelled as reals:
  rounding and the two infinities are outside the model. Every comparison with NaN is
  false and every arithmetic operation with a NaN operand gives NaN, as in IEEE 754.
\<close>

datatype pyfloat = NaN | Fl real

datatype error = TypeError | ValueError | IndexError | KeyError | EngineError

fun fle :: "pyfloat \<Rightarrow> pyfloat \<Rightarrow> bool" where
  "fle (Fl a) (Fl b) = (a \<le> b)"
| "fle _ _ = False"

fun fgt :: "pyfloat \<Rightarrow> pyfloat \<Rightarrow> bool" where
  "fgt (Fl a) (Fl b) = (a > b)"
| "fgt _ _ = False"

fun fge :: "pyfloat \<Rightarrow> pyfloat \<Rightarrow> bool" where
  "fge (Fl a) (Fl b) = (a \<ge> b)"
| "fge _ _ = False"

fun fadd :: "pyfloat \<Rightarrow> pyfloat \<Rightarrow> pyfloat" where
  "fadd (Fl a) (Fl b) = Fl (a + b)"
| "fadd _ _ = NaN"

fun fsub :: "pyfloat \<Rightarrow> pyfloat \<Rightarrow> pyfloat" where
  "fsub (Fl a) (Fl b) = Fl (a - b)"
| "fsub _ _ = NaN"

fun fmul :: "pyfloat \<Rightarrow> pyfloat \<Rightarrow> pyfloat" where
  "fmul (Fl a) (Fl b) = Fl (a * b)"
| "fmul _ _ = NaN"

text \<open>
  Division: the model has no infinities, so a zero divisor gives NaN. The only division
  by a possibly zero number in the source is the standardization of a column by its
  standard deviation; there a zero divisor meets a zero numerator and NumPy gives NaN too.
\<close>

fun fdiv :: "pyfloat \<Rightarrow> pyfloat \<Rightarrow> pyfloat" where
  "fdiv (Fl a) (Fl b) = (if b = 0 then NaN else Fl (a / b))"
| "fdiv _ _ = NaN"

fun fexp :: "pyfloat \<Rightarrow> pyfloat" where
  "fexp (Fl a) = Fl (exp a)"
| "fexp NaN = NaN"

fun flog :: "pyfloat \<Rightarrow> pyfloat" where
  "flog (Fl a) = (if a > 0 then Fl (ln a) else NaN)"
| "flog NaN = NaN"

fun fsqrt :: "pyfloat \<Rightarrow> pyfloat" where
  "fsqrt (Fl a) = (if a \<ge> 0 then Fl (sqrt a) else NaN)"
| "fsqrt NaN = NaN"

fun fsquare :: "pyfloat \<Rightarrow> pyfloat" where
  "fsquare (Fl a) = Fl (a * a)"
| "fsquare NaN = NaN"

text \<open>The values a caller can pass where the source expects a float.\<close>

datatype pyval = PyNone | PyBool bool | PyInt int | PyStr string | PyFloat pyfloat

section \<open>Series, frames and arrays\<close>

text \<open>
  A pandas Series is a list of (label, value) pairs in positional order. Row labels are
  integers (the labels of a DataFrame index), column and parameter labels are strings.
\<close>

type_synonym 'l series = "('l \<times> pyfloat) list"

text \<open>Label lookup as pandas alignment does it: a missing label gives NaN.\<close>

definition at_label :: "'l series \<Rightarrow> 'l \<Rightarrow> pyfloat" where
  "at_label s l = (case map_of s l of None \<Rightarrow> NaN | Some v \<Rightarrow> v)"

text \<open>\<open>Series.drop(label)\<close>: KeyError when the label is absent.\<close>

definition drop_label :: "'l \<Rightarrow> 'l series \<Rightarrow> error + 'l series" where
  "drop_label l s =
     (if l \<in> set (map fst s) then Inr (filter (\<lambda>(n, v). n \<noteq> l) s) else Inl KeyError)"

text \<open>
  \<open>pd.Series(s, index=idx)\<close> and the assignment of a Series to a DataFrame column:
  the values are looked up by label over the new index.
\<close>

definition reindex :: "'l series \<Rightarrow> 'l list \<Rightarrow> 'l series" where
  "reindex s idx = map (\<lambda>l. (l, at_label s l)) idx"

text \<open>The non-missing numbers of a list of floats (pandas reductions skip NaN).\<close>

fun numbers :: "pyfloat list \<Rightarrow> real list" where
  "numbers [] = []"
| "numbers (NaN # xs) = numbers xs"
| "numbers (Fl a # xs) = a # numbers xs"

definition pd_min :: "pyfloat list \<Rightarrow> pyfloat" where
  "pd_min xs = (case numbers xs of [] \<Rightarrow> NaN | v # vs \<Rightarrow> Fl (fold min vs v))"

definition pd_max :: "pyfloat list \<Rightarrow> pyfloat" where
  "pd_max xs = (case numbers xs of [] \<Rightarrow> NaN | v # vs \<Rightarrow> Fl (fold max vs v))"

definition pd_mean :: "pyfloat list \<Rightarrow> pyfloat" where
  "pd_mean xs = (let vs = numbers xs in
     if vs = [] then NaN else Fl (sum_list vs / real (length vs)))"

text \<open>The sum of squared deviations from the mean.\<close>

definition sq_dev :: "real list \<Rightarrow> real" where
  "sq_dev vs = (let m = sum_list vs / real (length vs) in sum_list (map (\<lambda>v. (v - m) * (v - m)) vs))"

text \<open>\<open>std(ddof=1)\<close>, also the default of \<open>Series.std()\<close>: NaN below two observations.\<close>

definition pd_std :: "pyfloat list \<Rightarrow> pyfloat" where
  "pd_std xs = (let vs = numbers xs in
     if length vs \<le> 1 then NaN else Fl (sqrt (sq_dev vs / real (length vs - 1))))"

text \<open>The sample variance (divisor n - 1), for comparison with \<open>std() ** 2\<close>.\<close>

definition sample_variance :: "pyfloat list \<Rightarrow> pyfloat" where
  "sample_variance xs = (let vs = numbers xs in
     if length vs \<le> 1 then NaN else Fl (sq_dev vs / real (length vs - 1)))"

text \<open>
  The independent variables as the constructor stores them: a Series (name, entries) when
  one regressor is given, a DataFrame (column names, labelled rows) otherwise. Every row
  of a DataFrame has one value per column.
\<close>

datatype xdata = XSeries string "int series" | XFrame "string list" "(int \<times> pyfloat list) list"

record dataframe =
  columns :: "string list"
  rows :: "(int \<times> pyfloat list) list"

fun position :: "'a list \<Rightarrow> 'a \<Rightarrow> nat option" where
  "position [] a = None"
| "position (x # xs) a = (if x = a then Some 0 else map_option Suc (position xs a))"

text \<open>\<open>df[name]\<close>: one column as a Series; KeyError for an unknown name.\<close>

definition getitem :: "dataframe \<Rightarrow> string \<Rightarrow> error + int series" where
  "getitem df name =
     (case position (columns df) name of
        None \<Rightarrow> Inl KeyError
      | Some j \<Rightarrow> Inr (map (\<lambda>(l, r). (l, r ! j)) (rows df)))"

text \<open>\<open>df[names]\<close>: the named columns as a DataFrame; KeyError for an unknown name.\<close>

definition getitems :: "dataframe \<Rightarrow> string list \<Rightarrow> error + xdata" where
  "getitems df names =
     (if list_all (\<lambda>n. position (columns df) n \<noteq> None) names
      then Inr (XFrame names
             (map (\<lambda>(l, r). (l, map (\<lambda>n. r ! the (position (columns df) n)) names)) (rows df)))
      else Inl KeyError)"

text \<open>The columns of a list of rows with \<open>k\<close> values each.\<close>

definition columns_of :: "nat \<Rightarrow> pyfloat list list \<Rightarrow> pyfloat list list" where
  "columns_of k rs = map (\<lambda>j. map (\<lambda>r. r ! j) rs) [0..<k]"

text \<open>
  \<open>iloc[positions]\<close>: selection by integer position; a negative position counts from
  the end, a position out of bounds raises IndexError.
\<close>

fun iloc :: "'a list \<Rightarrow> int list \<Rightarrow> error + 'a list" where
  "iloc xs [] = Inr []"
| "iloc xs (p # ps) =
     (let n = int (length xs); j = (if p < 0 then n + p else p)
      in if 0 \<le> j \<and> j < n
         then (case iloc xs ps of Inl e \<Rightarrow> Inl e | Inr r \<Rightarrow> Inr (xs ! nat j # r))
         else Inl IndexError)"

text \<open>A NumPy array of one or two dimensions; a 2-d array carries its column count.\<close>

datatype ndarray = Arr1 "pyfloat list" | Arr2 nat "pyfloat list list"

section \<open>The store\<close>

text \<open>
  The source performs one in-place operation on an object reached from the model
  (\<open>drop(..., inplace=True)\<close> in \<open>significant_regressors\<close>), so the p-value vector
  of the fit lives in an explicit store: a map from addresses to Series objects, with the
  next free address. Everything else the model owns is only ever read and is held by value.
\<close>

record heap =
  cells :: "nat \<Rightarrow> string series"
  next_addr :: nat

definition alloc :: "string series \<Rightarrow> heap \<Rightarrow> nat \<times> heap" where
  "alloc s h = (next_addr h, h\<lparr>cells := (cells h)(next_addr h := s), next_addr := Suc (next_addr h)\<rparr>)"

section \<open>The estimation engine\<close>

text \<open>
  What the fitted results object of the engine exposes and the source reads. The type
  parameter is the p-value vector: the Series itself in the engine's answer, its address
  in the store once the model keeps the results.
\<close>

record 'p fitres =
  params :: "string series"
  tvalues :: "string series"
  pvalues :: 'p
  fittedvalues :: "int series"
  resid_pearson :: "int series"
  llf :: pyfloat
  prsquared :: pyfloat
  aic :: pyfloat
  bic :: pyfloat
  use_t :: bool

text \<open>
  The engine is a parameter of the model: \<open>fit y X\<close> stands for
  \<open>sm.Logit(y, sm.add_constant(X)).fit()\<close>, which may fail.
\<close>

type_synonym engine = "string \<times> int series \<Rightarrow> xdata \<Rightarrow> error + (string series) fitres"

text \<open>Keeping the results: the p-value vector goes to the store.\<close>

definition keep_results :: "(string series) fitres \<Rightarrow> heap \<Rightarrow> nat fitres \<times> heap" where
  "keep_results fr h =
     (case alloc (pvalues fr) h of (a, h') \<Rightarrow>
        (\<lparr>params = params fr, tvalues = tvalues fr, pvalues = a,
          fittedvalues = fittedvalues fr, resid_pearson = resid_pearson fr,
          llf = llf fr, prsquared = prsquared fr, aic = aic fr, bic = bic fr,
          use_t = use_t fr\<rparr>, h'))"

text \<open>
  The attribute access \<open>self._results.pvalues\<close>: the results wrapper of the engine
  builds a new Series from the kept vector on every access and returns that.
\<close>

definition get_pvalues :: "nat fitres \<Rightarrow> heap \<Rightarrow> nat \<times> heap" where
  "get_pvalues res h = alloc (cells h (pvalues res)) h"

section \<open>The model\<close>

record std_row =
  coef :: pyfloat
  tvalue :: pyfloat
  pvalue :: pyfloat
  coef_stdX :: pyfloat
  coef_stdXy :: pyfloat
  stdev_X :: pyfloat

record std_table =
  axis_name :: string
  stat_label :: string
  p_label :: string
  table_rows :: "(string \<times> std_row) list"

record logit =
  self_y :: "string \<times> int series"
  self_X :: xdata
  self_alpha :: pyval
  X_model :: xdata
  y_model :: "string \<times> int series"
  results :: "nat fitres"
  model_selection_stats :: "(string \<times> pyfloat) list"
  log_likelihood :: pyfloat
  odds_ratios :: "string series"
  X_model_standardized :: xdata
  resid_model_standardized :: "int series"
  results_output_standardized :: std_table

subsection \<open>Sample alignment (the first lines of \<open>_regress\<close>)\<close>

definition notna :: "int series \<Rightarrow> int series" where
  "notna s = filter (\<lambda>(l, v). v \<noteq> NaN) s"

text \<open>The labels that \<open>dropna(axis='index')\<close> keeps.\<close>

definition dropna_index :: "xdata \<Rightarrow> int list" where
  "dropna_index X =
     (case X of
        XSeries n s \<Rightarrow> map fst (notna s)
      | XFrame ns rs \<Rightarrow> map fst (filter (\<lambda>(l, r). NaN \<notin> set r) rs))"

text \<open>
  \<open>list(set(X_notna.index).intersection(set(y_notna.index)))\<close>. The language does
  not specify the iteration order of a set; CPython iterates a set of small non-negative
  integers in ascending order, and ascending order is taken here. It only decides the order
  of the selected rows.
\<close>

definition indices :: "xdata \<Rightarrow> int series \<Rightarrow> int list" where
  "indices X ys =
     sort (filter (\<lambda>l. l \<in> set (map fst (notna ys))) (remdups (dropna_index X)))"

definition xdata_iloc :: "xdata \<Rightarrow> int list \<Rightarrow> error + xdata" where
  "xdata_iloc X ps =
     (case X of
        XSeries n s \<Rightarrow> (case iloc s ps of Inl e \<Rightarrow> Inl e | Inr s' \<Rightarrow> Inr (XSeries n s'))
      | XFrame ns rs \<Rightarrow> (case iloc rs ps of Inl e \<Rightarrow> Inl e | Inr rs' \<Rightarrow> Inr (XFrame ns rs')))"

text \<open>The labels are used as positions (\<open>iloc\<close>), on X and on y.\<close>

definition align_sample ::
  "xdata \<Rightarrow> string \<times> int series \<Rightarrow> error + (xdata \<times> (string \<times> int series))" where
  "align_sample X yv =
     (let ps = indices X (snd yv) in
      case xdata_iloc X ps of
        Inl e \<Rightarrow> Inl e
      | Inr Xm \<Rightarrow>
          (case iloc (snd yv) ps of
             Inl e \<Rightarrow> Inl e
           | Inr ym \<Rightarrow> Inr (Xm, (fst yv, ym))))"

text \<open>The row labels of the aligned sample, and whether a value is missing in it.\<close>

definition x_index :: "xdata \<Rightarrow> int list" where
  "x_index X = (case X of XSeries n s \<Rightarrow> map fst s | XFrame ns rs \<Rightarrow> map fst rs)"

definition x_has_nan :: "xdata \<Rightarrow> bool" where
  "x_has_nan X =
     (case X of
        XSeries n s \<Rightarrow> NaN \<in> set (map snd s)
      | XFrame ns rs \<Rightarrow> list_ex (\<lambda>(l, r). NaN \<in> set r) rs)"

subsection \<open>\<open>_regress\<close>\<close>

text \<open>
  \<open>results.summary(alpha=self._alpha)\<close>: the tabulated report is not modelled, only
  whether the call returns. The level enters the confidence intervals as
  \<open>1 - alpha / 2\<close>, which raises TypeError for a string and for \<open>None\<close>.
\<close>

definition summary :: "pyval \<Rightarrow> error + unit" where
  "summary alpha =
     (case alpha of PyStr s \<Rightarrow> Inl TypeError | PyNone \<Rightarrow> Inl TypeError | _ \<Rightarrow> Inr ())"

definition regress ::
  "engine \<Rightarrow> string \<times> int series \<Rightarrow> xdata \<Rightarrow> pyval \<Rightarrow> heap \<Rightarrow>
   error + ((xdata \<times> (string \<times> int series) \<times> nat fitres \<times>
             (string \<times> pyfloat) list \<times> pyfloat \<times> string series) \<times> heap)" where
  "regress fit yv X alpha h =
     (case align_sample X yv of
        Inl e \<Rightarrow> Inl e
      | Inr (Xm, ym) \<Rightarrow>
          (case fit ym Xm of
             Inl e \<Rightarrow> Inl e
           | Inr fr \<Rightarrow>
               (case keep_results fr h of (res, h1) \<Rightarrow>
                  (case summary alpha of
                     Inl e \<Rightarrow> Inl e
                   | Inr u \<Rightarrow>
                       (case drop_label ''const'' (params res) of
                          Inl e \<Rightarrow> Inl e
                        | Inr ps \<Rightarrow>
                            Inr ((Xm, ym, res,
                                  [(''Log-likelihood'', llf res), (''Pseudo R-squared'', prsquared res),
                                   (''AIC'', aic res), (''BIC'', bic res)],
                                  llf res,
                                  map (\<lambda>(n, c). (n, fexp c)) ps), h1))))))"

subsection \<open>\<open>_standardize_results\<close>\<close>

text \<open>The values of the regressor called \<open>name\<close> in the sample, by column position.\<close>

definition x_columns :: "xdata \<Rightarrow> (string \<times> pyfloat list) list" where
  "x_columns X =
     (case X of
        XSeries n s \<Rightarrow> [(n, map snd s)]
      | XFrame ns rs \<Rightarrow> zip ns (columns_of (length ns) (map snd rs)))"

text \<open>
  \<open>stdev_X = X_model.std(ddof=1)\<close> as it enters a column of the table: a scalar for a
  Series (the same for every row), a Series aligned by regressor name for a DataFrame.
\<close>

definition stdev_at :: "xdata \<Rightarrow> string \<Rightarrow> pyfloat" where
  "stdev_at X name =
     (case X of
        XSeries n s \<Rightarrow> pd_std (map snd s)
      | XFrame ns rs \<Rightarrow> at_label (map (\<lambda>(n, c). (n, pd_std c)) (x_columns X)) name)"

text \<open>\<open>(X_model - X_model.mean()) / stdev_X\<close>, column by column.\<close>

definition standardize :: "xdata \<Rightarrow> xdata" where
  "standardize X =
     (case X of
        XSeries n s \<Rightarrow>
          XSeries n (map (\<lambda>(l, v). (l, fdiv (fsub v (pd_mean (map snd s))) (pd_std (map snd s)))) s)
      | XFrame ns rs \<Rightarrow>
          XFrame ns
            (map (\<lambda>(l, r). (l, map (\<lambda>(v, c). fdiv (fsub v (pd_mean c)) (pd_std c))
                                  (zip r (columns_of (length ns) (map snd rs))))) rs))"

text \<open>The names of the regressors of a sample.\<close>

definition regressor_names :: "xdata \<Rightarrow> string list" where
  "regressor_names X = (case X of XSeries n s \<Rightarrow> [n] | XFrame ns rs \<Rightarrow> ns)"

text \<open>Long's method: the variance of the latent variable.\<close>

definition var_ystar :: "int series \<Rightarrow> pyfloat" where
  "var_ystar fitted = fadd (fsquare (pd_std (map snd fitted))) (Fl (pi ^ 2 / 3))"

definition standardize_results ::
  "engine \<Rightarrow> string \<times> int series \<Rightarrow> xdata \<Rightarrow> string \<times> int series \<Rightarrow> nat fitres \<Rightarrow> heap \<Rightarrow>
   error + ((xdata \<times> int series \<times> std_table) \<times> heap)" where
  "standardize_results fit yv Xm ym res h =
     (let Xs = standardize Xm in
      case fit ym Xs of
        Inl e \<Rightarrow> Inl e
      | Inr results_obj \<Rightarrow>
          (case drop_label ''const'' (params results_obj) of
             Inl e \<Rightarrow> Inl e
           | Inr ps \<Rightarrow>
               (case get_pvalues res h of (pa, h1) \<Rightarrow>
                  Inr ((Xs,
                        reindex (resid_pearson res) (map fst (snd ym)),
                        \<lparr>axis_name = fst yv,
                         stat_label = (if use_t results_obj then ''t'' else ''z''),
                         p_label = (if use_t results_obj then ''P>|t|'' else ''P>|z|''),
                         table_rows =
                           map (\<lambda>n. (n,
                                 \<lparr>coef = at_label (params res) n,
                                  tvalue = at_label (tvalues res) n,
                                  pvalue = at_label (cells h1 pa) n,
                                  coef_stdX = at_label (params results_obj) n,
                                  coef_stdXy = fdiv (fmul (at_label (params res) n) (stdev_at Xm n))
                                                    (fsqrt (var_ystar (fittedvalues res))),
                                  stdev_X = stdev_at Xm n\<rparr>))
                               (map fst ps)\<rparr>), h1))))"

subsection \<open>\<open>__init__\<close>\<close>

definition Logit_init ::
  "engine \<Rightarrow> dataframe \<Rightarrow> string list \<Rightarrow> string list \<Rightarrow> pyval \<Rightarrow> heap \<Rightarrow> error + (logit \<times> heap)" where
  "Logit_init fit df y_list regressors_list alpha h =
     (case y_list of
        [y_name] \<Rightarrow>
          (case getitem df y_name of
             Inl e \<Rightarrow> Inl e
           | Inr ys \<Rightarrow>
               (case (case regressors_list of
                        [x_name] \<Rightarrow> (case getitem df x_name of Inl e \<Rightarrow> Inl e
                                      | Inr xs \<Rightarrow> Inr (XSeries x_name xs))
                      | _ \<Rightarrow> getitems df regressors_list) of
                  Inl e \<Rightarrow> Inl e
                | Inr X \<Rightarrow>
                    (case regress fit (y_name, ys) X alpha h of
                       Inl e \<Rightarrow> Inl e
                     | Inr ((Xm, ym, res, stats, ll, odds), h1) \<Rightarrow>
                         (case standardize_results fit (y_name, ys) Xm ym res h1 of
                            Inl e \<Rightarrow> Inl e
                          | Inr ((Xs, resid, tab), h2) \<Rightarrow>
                              Inr (\<lparr>self_y = (y_name, ys), self_X = X, self_alpha = alpha,
                                    X_model = Xm, y_model = ym, results = res,
                                    model_selection_stats = stats, log_likelihood = ll,
                                    odds_ratios = odds, X_model_standardized = Xs,
                                    resid_model_standardized = resid,
                                    results_output_standardized = tab\<rparr>, h2)))))
      | _ \<Rightarrow> Inl ValueError)"

section \<open>Prediction\<close>

text \<open>
  Library calls of \<open>predict\<close>. \<open>sm.add_constant\<close> on a NumPy array, with its default
  \<open>has_constant='skip'\<close>: a 1-d array is one column of observations; an empty column
  raises; when some column is a nonzero constant the array is returned as it is;
  otherwise a column of ones is put in front.
\<close>

definition is_nonzero_const :: "pyfloat list \<Rightarrow> bool" where
  "is_nonzero_const c =
     (case c of
        [] \<Rightarrow> False
      | x # xs \<Rightarrow> x \<noteq> NaN \<and> x \<noteq> Fl 0 \<and> list_all (\<lambda>v. v = x) xs)"

definition add_constant :: "ndarray \<Rightarrow> error + ndarray" where
  "add_constant x =
     (case (case x of Arr1 xs \<Rightarrow> (1, map (\<lambda>v. [v]) xs) | Arr2 k rs \<Rightarrow> (k, rs)) of
        (k, rs) \<Rightarrow>
          if rs = [] \<and> 0 < k then Inl ValueError
          else if list_ex is_nonzero_const (columns_of k rs) then Inr (Arr2 k rs)
          else Inr (Arr2 (Suc k) (map (\<lambda>r. Fl 1 # r) rs)))"

text \<open>\<open>np.insert(x, 0, 1)\<close> on a 1-d array.\<close>

definition np_insert_one :: "pyfloat list \<Rightarrow> pyfloat list" where
  "np_insert_one xs = Fl 1 # xs"

text \<open>
  The prediction primitive of the fitted results, \<open>results.predict(exog)\<close>: the logistic
  function of the product of each row of \<open>exog\<close> with the parameter vector. A 1-d
  array is one row (one column when the model has a single parameter); a row count of
  values other than the parameter count raises.
\<close>

fun logistic :: "pyfloat \<Rightarrow> pyfloat" where
  "logistic (Fl z) = Fl (1 / (1 + exp (- z)))"
| "logistic NaN = NaN"

definition dot :: "pyfloat list \<Rightarrow> pyfloat list \<Rightarrow> pyfloat" where
  "dot r w = fold (\<lambda>(a, b) acc. fadd acc (fmul a b)) (zip r w) (Fl 0)"

definition results_predict :: "string series \<Rightarrow> ndarray \<Rightarrow> error + pyfloat list" where
  "results_predict ps exog =
     (let w = map snd ps in
      case (case exog of
              Arr1 xs \<Rightarrow> if length w = 1 then (1, map (\<lambda>v. [v]) xs) else (length xs, [xs])
            | Arr2 k rs \<Rightarrow> (k, rs)) of
        (k, rs) \<Rightarrow>
          if k = length w then Inr (map (\<lambda>r. logistic (dot r w)) rs) else Inl ValueError)"

text \<open>
  \<open>np.where(cond, preds, np.NaN)\<close> for a 1-d \<open>cond\<close> and 1-d \<open>preds\<close>: shapes
  broadcast when they are equal or one of them is 1, and raise otherwise.
\<close>

definition np_where :: "bool list \<Rightarrow> pyfloat list \<Rightarrow> error + pyfloat list" where
  "np_where cond preds =
     (if length cond = length preds
      then Inr (map (\<lambda>(c, p). if c then p else NaN) (zip cond preds))
      else if length cond = 1 then Inr (map (\<lambda>p. if hd cond then p else NaN) preds)
      else if length preds = 1 then Inr (map (\<lambda>c. if c then hd preds else NaN) cond)
      else Inl ValueError)"

text \<open>The per-regressor minimum and maximum of the sample, \<open>X_model.min()\<close> and \<open>.max()\<close>.\<close>

definition x_min :: "string list \<Rightarrow> (int \<times> pyfloat list) list \<Rightarrow> pyfloat list" where
  "x_min ns rs = map pd_min (columns_of (length ns) (map snd rs))"

definition x_max :: "string list \<Rightarrow> (int \<times> pyfloat list) list \<Rightarrow> pyfloat list" where
  "x_max ns rs = map pd_max (columns_of (length ns) (map snd rs))"

text \<open>
  The range test of the branch for one observation: \<open>(min <= x) & (x <= max)\<close>, all true.
\<close>

definition in_range_1d :: "pyfloat list \<Rightarrow> pyfloat list \<Rightarrow> pyfloat list \<Rightarrow> bool" where
  "in_range_1d mins maxs xs =
     list_all (\<lambda>(x, lo, hi). fle lo x \<and> fle x hi) (zip xs (zip mins maxs))"

text \<open>
  The range test of the other branch, per example: both comparisons are made against the
  tiled minimum, \<open>less_equal(min, x) & greater_equal(x, min)\<close>.
\<close>

definition in_range_rows :: "pyfloat list \<Rightarrow> pyfloat list list \<Rightarrow> bool list" where
  "in_range_rows mins rs =
     map (\<lambda>r. list_all (\<lambda>(x, lo). fle lo x \<and> fge x lo) (zip r mins)) rs"

definition predict :: "logit \<Rightarrow> ndarray \<Rightarrow> bool \<Rightarrow> error + pyfloat list" where
  "predict self X_predict within_sample =
     (case X_model self of
        XSeries n s \<Rightarrow> Inl IndexError
      | XFrame ns rs \<Rightarrow>
          (let regressors_count = length ns;
               regressors_detected = (case X_predict of Arr1 xs \<Rightarrow> length xs | Arr2 k es \<Rightarrow> k)
           in if regressors_detected \<noteq> regressors_count then Inl ValueError
              else
                (case X_predict of
                   Arr1 xs \<Rightarrow>
                     if within_sample
                     then (case results_predict (params (results self)) (Arr1 (np_insert_one xs)) of
                             Inl e \<Rightarrow> Inl e
                           | Inr preds \<Rightarrow>
                               np_where [in_range_1d (x_min ns rs) (x_max ns rs) xs] preds)
                     else (case add_constant (Arr1 xs) of
                             Inl e \<Rightarrow> Inl e
                           | Inr exog \<Rightarrow> results_predict (params (results self)) exog)
                 | Arr2 k es \<Rightarrow>
                     (case add_constant (Arr2 k es) of
                        Inl e \<Rightarrow> Inl e
                      | Inr exog \<Rightarrow>
                          (case results_predict (params (results self)) exog of
                             Inl e \<Rightarrow> Inl e
                           | Inr preds \<Rightarrow>
                               if within_sample
                               then np_where (in_range_rows (x_min ns rs) es) preds
                               else Inr preds)))))"

section \<open>Significant regressors\<close>

text \<open>\<open>s.drop(label, inplace=True)\<close> on the Series at address \<open>a\<close>.\<close>

definition drop_inplace :: "nat \<Rightarrow> string \<Rightarrow> heap \<Rightarrow> (error + unit) \<times> heap" where
  "drop_inplace a l h =
     (case drop_label l (cells h a) of
        Inl e \<Rightarrow> (Inl e, h)
      | Inr s \<Rightarrow> (Inr (), h\<lparr>cells := (cells h)(a := s)\<rparr>))"

definition significant_regressors ::
  "logit \<Rightarrow> pyval \<Rightarrow> heap \<Rightarrow> (error + string list option) \<times> heap" where
  "significant_regressors self alpha h =
     (case alpha of
        PyFloat a \<Rightarrow>
          if fle a (Fl 0) \<or> fgt a (Fl 0.1) then (Inl ValueError, h)
          else
            (case get_pvalues (results self) h of (regressor_pvalues, h1) \<Rightarrow>
               (case drop_inplace regressor_pvalues ''const'' h1 of
                  (Inl e, h2) \<Rightarrow> (Inl e, h2)
                | (Inr u, h2) \<Rightarrow>
                    (let significant = filter (\<lambda>(n, p). fle p a) (cells h2 regressor_pvalues)
                     in (Inr (if significant = [] then None else Some (map fst significant)), h2))))
      | _ \<Rightarrow> (Inl TypeError, h))"


text \<open>The p-value vector that the model's results keep in the store.\<close>

definition kept_pvalues :: "logit \<Rightarrow> heap \<Rightarrow> string series" where
  "kept_pvalues self h = cells h (pvalues (results self))"

text \<open>
  The answer of \<open>significant_regressors\<close> on a p-value vector: the names other than the
  constant whose p-value is at most \<open>a\<close>, in the order of the vector.
\<close>

definition significant :: "string series \<Rightarrow> real \<Rightarrow> string list option" where
  "significant s a =
     (let sig = filter (\<lambda>(n, p). fle p (Fl a)) (filter (\<lambda>(n, v). n \<noteq> ''const'') s)
      in if sig = [] then None else Some (map fst sig))"

text \<open>The returned names as a set: \<open>None\<close> stands for no significant regressor.\<close>

definition names_of :: "string list option \<Rightarrow> string set" where
  "names_of r = (case r of None \<Rightarrow> {} | Some ns \<Rightarrow> set ns)"

section \<open>Sample data\<close>

text \<open>
  A small dataset with the default row labels, and a stand-in for the engine that answers
  every fit with fixed estimates for up to two regressors; its residuals are the row sums
  of the regressors it was given, so the fit on the sample and the fit on the standardized
  sample answer with different residuals. They instantiate the theorems below at concrete
  fitted models.
\<close>

definition heap0 :: heap where
  "heap0 = \<lparr>cells = (\<lambda>a. []), next_addr = 0\<rparr>"

definition sample_df :: dataframe where
  "sample_df =
     \<lparr>columns = [''y'', ''a'', ''b''],
      rows = [(0, [Fl 0, Fl 1, Fl 2]), (1, [Fl 1, Fl 2, Fl 1]),
              (2, [Fl 0, Fl 3, Fl 4]), (3, [Fl 1, Fl 4, Fl 3])]\<rparr>"

definition row_sums :: "xdata \<Rightarrow> int series" where
  "row_sums X =
     (case X of
        XSeries n s \<Rightarrow> s
      | XFrame ns rs \<Rightarrow> map (\<lambda>(l, r). (l, fold (\<lambda>v acc. fadd acc v) r (Fl 0))) rs)"

definition sample_engine :: engine where
  "sample_engine yv X =
     (let ns = map fst (x_columns X) in
      Inr \<lparr>params = (''const'', Fl 0) # zip ns [Fl 1, Fl (- 1)],
           tvalues = (''const'', Fl 0) # zip ns [Fl 3, Fl (- 2)],
           pvalues = (''const'', Fl 1) # zip ns [Fl 0.01, Fl 0.08],
           fittedvalues = map (\<lambda>(l, v). (l, Fl (real_of_int l))) (snd yv),
           resid_pearson = row_sums X,
           llf = Fl (- 2), prsquared = Fl 0.25, aic = Fl 10, bic = Fl 11,
           use_t = False\<rparr>)"

definition sample_alpha :: pyval where
  "sample_alpha = PyFloat (Fl 0.05)"

text \<open>The model fitted on two regressors, and the store after its construction.\<close>

definition model_ab :: logit where
  "model_ab = fst (projr (Logit_init sample_engine sample_df [''y''] [''a'', ''b''] sample_alpha heap0))"

definition heap_ab :: heap where
  "heap_ab = snd (projr (Logit_init sample_engine sample_df [''y''] [''a'', ''b''] sample_alpha heap0))"

text \<open>The model fitted on the single regressor \<open>a\<close>.\<close>

definition model_a :: logit where
  "model_a = fst (projr (Logit_init sample_engine sample_df [''y''] [''a''] sample_alpha heap0))"

text \<open>
  A dataset whose row labels are 2, 0, 1 (a reordered frame), with a missing value of
  \<open>a\<close> in the row labelled 2.
\<close>

definition relabelled_X :: xdata where
  "relabelled_X = XFrame [''a'', ''b''] [(2, [NaN, Fl 1]), (0, [Fl 5, Fl 2]), (1, [Fl 6, Fl 3])]"

definition relabelled_y :: "string \<times> int series" where
  "relabelled_y = (''y'', [(2, Fl 1), (0, Fl 0), (1, Fl 1)])"


section \<open>Facts about construction\<close>

lemma keep_resultsD:
  assumes "keep_results fr h = (res, h')"
  shows "params res = params fr" "tvalues res = tvalues fr" "pvalues res = next_addr h"
     "next_addr h' = Suc (next_addr h)" "cells h' (next_addr h) = pvalues fr"
     "resid_pearson res = resid_pearson fr" "fittedvalues res = fittedvalues fr"
  using assms by (auto simp: keep_results_def alloc_def)

lemma drop_label_InrD:
  assumes "drop_label l s = Inr ps"
  shows "ps = filter (\<lambda>(n, v). n \<noteq> l) s" "l \<in> set (map fst s)" "l \<notin> set (map fst ps)"
  using assms by (auto simp: drop_label_def split: if_splits)

lemma regress_InrD:
  assumes "regress fit yv X alpha h = Inr ((Xm, ym, res, stats, ll, odds), h1)"
  shows "\<exists>fr ps. align_sample X yv = Inr (Xm, ym) \<and> fit ym Xm = Inr fr \<and>
           keep_results fr h = (res, h1) \<and> drop_label ''const'' (params fr) = Inr ps \<and>
           odds = map (\<lambda>(n, c). (n, fexp c)) ps \<and> ll = llf fr \<and>
           stats = [(''Log-likelihood'', llf fr), (''Pseudo R-squared'', prsquared fr),
                    (''AIC'', aic fr), (''BIC'', bic fr)]"
  using assms
  by (auto simp: regress_def keep_results_def alloc_def split: sum.splits prod.splits)

lemma standardize_results_InrD:
  assumes "standardize_results fit yv Xm ym res h = Inr ((Xs, resid, tab), h2)"
  shows "\<exists>fr2 ps2. Xs = standardize Xm \<and> fit ym Xs = Inr fr2 \<and>
           drop_label ''const'' (params fr2) = Inr ps2 \<and>
           h2 = snd (get_pvalues res h) \<and>
           resid = reindex (resid_pearson res) (map fst (snd ym)) \<and>
           table_rows tab =
             map (\<lambda>n. (n,
                    \<lparr>coef = at_label (params res) n,
                     tvalue = at_label (tvalues res) n,
                     pvalue = at_label (cells h2 (fst (get_pvalues res h))) n,
                     coef_stdX = at_label (params fr2) n,
                     coef_stdXy = fdiv (fmul (at_label (params res) n) (stdev_at Xm n))
                                       (fsqrt (var_ystar (fittedvalues res))),
                     stdev_X = stdev_at Xm n\<rparr>))
                 (map fst ps2)"
  using assms
  by (auto simp: standardize_results_def Let_def split: sum.splits prod.splits)

lemma standardize_results_InrE:
  assumes "standardize_results fit yv Xm ym res h = Inr ((Xs, resid, tab), h2)"
  obtains fr2 ps2 where "Xs = standardize Xm" "fit ym Xs = Inr fr2"
    "drop_label ''const'' (params fr2) = Inr ps2"
    "h2 = snd (get_pvalues res h)"
    "resid = reindex (resid_pearson res) (map fst (snd ym))"
    "table_rows tab =
             map (\<lambda>n. (n,
                    \<lparr>coef = at_label (params res) n,
                     tvalue = at_label (tvalues res) n,
                     pvalue = at_label (cells h2 (fst (get_pvalues res h))) n,
                     coef_stdX = at_label (params fr2) n,
                     coef_stdXy = fdiv (fmul (at_label (params res) n) (stdev_at Xm n))
                                       (fsqrt (var_ystar (fittedvalues res))),
                     stdev_X = stdev_at Xm n\<rparr>))
                 (map fst ps2)"
  using standardize_results_InrD[OF assms] by (elim exE conjE) (rule that)

lemma Logit_init_InrD:
  assumes "Logit_init fit df y_list xs al h0 = Inr (m, h)"
  shows "\<exists>y_name ys X h1.
           y_list = [y_name] \<and> getitem df y_name = Inr ys \<and>
           (case xs of [x_name] \<Rightarrow> (case getitem df x_name of Inl e \<Rightarrow> Inl e | Inr v \<Rightarrow> Inr (XSeries x_name v))
              | _ \<Rightarrow> getitems df xs) = Inr X \<and>
           regress fit (y_name, ys) X al h0 =
             Inr ((X_model m, y_model m, results m, model_selection_stats m, log_likelihood m, odds_ratios m), h1) \<and>
           standardize_results fit (y_name, ys) (X_model m) (y_model m) (results m) h1 =
             Inr ((X_model_standardized m, resid_model_standardized m, results_output_standardized m), h)
           \<and> self_X m = X \<and> self_y m = (y_name, ys) \<and> self_alpha m = al"
  using assms
  unfolding Logit_init_def
  by (auto split: list.splits sum.splits prod.splits)

text \<open>
  A constructed model holds the results of the fit on the aligned sample; their p-value
  vector is an allocated object of the store and is the one the engine answered with.
\<close>

lemma Logit_init_kept:
  assumes "Logit_init fit df y_list xs al h0 = Inr (m, h)"
  shows "\<exists>fr. fit (y_model m) (X_model m) = Inr fr \<and> params (results m) = params fr \<and>
           pvalues (results m) < next_addr h \<and> kept_pvalues m h = pvalues fr \<and>
           ''const'' \<in> set (map fst (params fr)) \<and>
           resid_pearson (results m) = resid_pearson fr \<and> fittedvalues (results m) = fittedvalues fr"
proof -
  from Logit_init_InrD[OF assms] obtain y_name ys X h1 where
    r: "regress fit (y_name, ys) X al h0 =
             Inr ((X_model m, y_model m, results m, model_selection_stats m, log_likelihood m, odds_ratios m), h1)"
    and s: "standardize_results fit (y_name, ys) (X_model m) (y_model m) (results m) h1 =
             Inr ((X_model_standardized m, resid_model_standardized m, results_output_standardized m), h)"
    by blast
  from regress_InrD[OF r] obtain fr ps where
    f: "fit (y_model m) (X_model m) = Inr fr" and k: "keep_results fr h0 = (results m, h1)"
    and d: "drop_label ''const'' (params fr) = Inr ps" by blast
  from standardize_results_InrD[OF s] have h: "h = snd (get_pvalues (results m) h1)" by blast
  note k1 = keep_resultsD[OF k]
  from d have c: "''const'' \<in> set (map fst (params fr))"
    by (auto simp: drop_label_def split: if_splits)
  from h k1 have "pvalues (results m) < next_addr h" "kept_pvalues m h = pvalues fr"
    by (auto simp: get_pvalues_def alloc_def kept_pvalues_def)
  with f k1 c show ?thesis by blast
qed

lemma Logit_init_derived:
  assumes "Logit_init fit df y_list xs al h0 = Inr (m, h)"
  shows "odds_ratios m =
           map (\<lambda>(n, c). (n, fexp c)) (filter (\<lambda>(n, c). n \<noteq> ''const'') (params (results m)))"
    and "resid_model_standardized m = reindex (resid_pearson (results m)) (map fst (snd (y_model m)))"
    and "X_model_standardized m = standardize (X_model m)"
    and "(n, row) \<in> set (table_rows (results_output_standardized m)) \<Longrightarrow>
           n \<noteq> ''const'' \<and>
           coef row = at_label (params (results m)) n \<and>
           stdev_X row = stdev_at (X_model m) n \<and>
           coef_stdXy row = fdiv (fmul (at_label (params (results m)) n) (stdev_at (X_model m) n))
                                 (fsqrt (var_ystar (fittedvalues (results m))))"
    and "\<exists>fr2. fit (y_model m) (standardize (X_model m)) = Inr fr2 \<and>
           map fst (table_rows (results_output_standardized m))
             = filter (\<lambda>n. n \<noteq> ''const'') (map fst (params fr2))"
proof -
  from Logit_init_InrD[OF assms] obtain y_name ys X h1 where
    r: "regress fit (y_name, ys) X al h0 =
             Inr ((X_model m, y_model m, results m, model_selection_stats m, log_likelihood m, odds_ratios m), h1)"
    and s: "standardize_results fit (y_name, ys) (X_model m) (y_model m) (results m) h1 =
             Inr ((X_model_standardized m, resid_model_standardized m, results_output_standardized m), h)"
    by blast
  from regress_InrD[OF r] obtain fr ps where
    k: "keep_results fr h0 = (results m, h1)"
    and d: "drop_label ''const'' (params fr) = Inr ps"
    and o: "odds_ratios m = map (\<lambda>(n, c). (n, fexp c)) ps" by blast
  note k1 = keep_resultsD[OF k]
  from s obtain fr2 ps2 where
    xs: "X_model_standardized m = standardize (X_model m)"
    and f2: "fit (y_model m) (X_model_standardized m) = Inr fr2"
    and d2: "drop_label ''const'' (params fr2) = Inr ps2"
    and hh: "h = snd (get_pvalues (results m) h1)"
    and re: "resid_model_standardized m = reindex (resid_pearson (results m)) (map fst (snd (y_model m)))"
    and t: "table_rows (results_output_standardized m) =
             map (\<lambda>n. (n,
                    \<lparr>coef = at_label (params (results m)) n,
                     tvalue = at_label (tvalues (results m)) n,
                     pvalue = at_label (cells h (fst (get_pvalues (results m) h1))) n,
                     coef_stdX = at_label (params fr2) n,
                     coef_stdXy = fdiv (fmul (at_label (params (results m)) n) (stdev_at (X_model m) n))
                                       (fsqrt (var_ystar (fittedvalues (results m)))),
                     stdev_X = stdev_at (X_model m) n\<rparr>))
                 (map fst ps2)"
    by (rule standardize_results_InrE)
  show "odds_ratios m =
           map (\<lambda>(n, c). (n, fexp c)) (filter (\<lambda>(n, c). n \<noteq> ''const'') (params (results m)))"
    using o drop_label_InrD(1)[OF d] k1 by simp
  show "resid_model_standardized m = reindex (resid_pearson (results m)) (map fst (snd (y_model m)))"
    by (rule re)
  show "X_model_standardized m = standardize (X_model m)" by (rule xs)
  show "n \<noteq> ''const'' \<and>
           coef row = at_label (params (results m)) n \<and>
           stdev_X row = stdev_at (X_model m) n \<and>
           coef_stdXy row = fdiv (fmul (at_label (params (results m)) n) (stdev_at (X_model m) n))
                                 (fsqrt (var_ystar (fittedvalues (results m))))"
    if "(n, row) \<in> set (table_rows (results_output_standardized m))"
    using that drop_label_InrD(3)[OF d2] unfolding t by (auto simp: image_iff)
  have "map fst (table_rows (results_output_standardized m))
             = filter (\<lambda>n. n \<noteq> ''const'') (map fst (params fr2))"
    unfolding t drop_label_InrD(1)[OF d2]
    by (simp add: comp_def filter_map case_prod_unfold)
  with f2 xs
  show "\<exists>fr2. fit (y_model m) (standardize (X_model m)) = Inr fr2 \<and>
           map fst (table_rows (results_output_standardized m))
             = filter (\<lambda>n. n \<noteq> ''const'') (map fst (params fr2))"
    by auto
qed

subsection \<open>The sample models\<close>

lemmas sample_defs = Logit_init_def regress_def standardize_results_def align_sample_def indices_def
  dropna_index_def notna_def xdata_iloc_def getitem_def getitems_def sample_df_def sample_engine_def
  heap0_def keep_results_def alloc_def get_pvalues_def drop_label_def x_columns_def columns_of_def
  sample_alpha_def row_sums_def summary_def

lemma fitted_ab:
  "Logit_init sample_engine sample_df [''y''] [''a'', ''b''] sample_alpha heap0 = Inr (model_ab, heap_ab)"
proof -
  have "\<exists>m h. Logit_init sample_engine sample_df [''y''] [''a'', ''b''] sample_alpha heap0 = Inr (m, h)"
    by (simp add: sample_defs Let_def)
  then show ?thesis by (auto simp: model_ab_def heap_ab_def)
qed

lemma sample_engine_labels:
  "\<forall>yv X fr. sample_engine yv X = Inr fr \<longrightarrow> map fst (pvalues fr) = map fst (params fr)"
  by (auto simp: sample_engine_def Let_def map_fst_zip_take)

lemma X_model_ab:
  "X_model model_ab =
     XFrame [''a'', ''b''] [(0, [Fl 1, Fl 2]), (1, [Fl 2, Fl 1]), (2, [Fl 3, Fl 4]), (3, [Fl 4, Fl 3])]"
  by (simp add: model_ab_def sample_defs Let_def)

lemma y_model_ab: "y_model model_ab = (''y'', [(0, Fl 0), (1, Fl 1), (2, Fl 0), (3, Fl 1)])"
  by (simp add: model_ab_def sample_defs Let_def)

lemma params_ab: "params (results model_ab) = [(''const'', Fl 0), (''a'', Fl 1), (''b'', Fl (- 1))]"
  by (simp add: model_ab_def sample_defs Let_def)

lemma fittedvalues_ab: "fittedvalues (results model_ab) = [(0, Fl 0), (1, Fl 1), (2, Fl 2), (3, Fl 3)]"
  by (simp add: model_ab_def sample_defs Let_def)

lemma kept_ab:
  "pvalues (results model_ab) = 0" "next_addr heap_ab = 2"
  "kept_pvalues model_ab heap_ab = [(''const'', Fl 1), (''a'', Fl 0.01), (''b'', Fl 0.08)]"
  by (simp_all add: model_ab_def heap_ab_def kept_pvalues_def sample_defs Let_def)

lemma table_labels_ab: "map fst (table_rows (results_output_standardized model_ab)) = [''a'', ''b'']"
  by (simp add: model_ab_def sample_defs standardize_def Let_def)

lemma X_model_a:
  "X_model model_a = XSeries ''a'' [(0, Fl 1), (1, Fl 2), (2, Fl 3), (3, Fl 4)]"
  by (simp add: model_a_def sample_defs Let_def)

lemmas predict_defs = predict_def results_predict_def add_constant_def np_where_def in_range_rows_def
  in_range_1d_def x_min_def x_max_def columns_of_def pd_min_def pd_max_def is_nonzero_const_def
  np_insert_one_def dot_def

section \<open>Sample alignment\<close>

text \<open>
  Claim C2 says that the aligned sample has the same row labels on both sides and no
  missing value. The source selects by position with the labels that survived
  \<open>dropna\<close>. On the frame whose rows are labelled 2, 0, 1 and whose row labelled 2
  misses \<open>a\<close>, the surviving labels are 0 and 1, the rows at positions 0 and 1 are
  selected, and the aligned sample keeps the row with the missing value and loses the
  complete row labelled 1.
\<close>

theorem align_sample_by_position:
  "align_sample relabelled_X relabelled_y =
     Inr (XFrame [''a'', ''b''] [(2, [NaN, Fl 1]), (0, [Fl 5, Fl 2])], (''y'', [(2, Fl 1), (0, Fl 0)])) \<and>
   x_has_nan (XFrame [''a'', ''b''] [(2, [NaN, Fl 1]), (0, [Fl 5, Fl 2])])"
  by (simp add: align_sample_def indices_def dropna_index_def notna_def xdata_iloc_def
        relabelled_X_def relabelled_y_def x_has_nan_def Let_def)

text \<open>
  What does hold: both sides of the aligned sample are taken at the same positions of
  frames with the same index, so a constructed model has the same row labels, in the same
  order, in its aligned dependent series and in its aligned independent table.
\<close>

lemma iloc_map:
  "iloc xs ps = Inr r \<Longrightarrow> iloc (map f xs) ps = Inr (map f r)"
proof (induction ps arbitrary: r)
  case Nil
  then show ?case by simp
next
  case (Cons p ps)
  then show ?case
    by (auto simp: Let_def nth_map split: if_splits sum.splits)
qed

lemma align_sample_index:
  assumes idx: "x_index X = map fst (snd yv)"
      and al: "align_sample X yv = Inr (Xm, ym)"
  shows "x_index Xm = map fst (snd ym)"
proof -
  let ?ps = "indices X (snd yv)"
  from al obtain yr where y: "iloc (snd yv) ?ps = Inr yr" and ym: "ym = (fst yv, yr)"
    by (auto simp: align_sample_def Let_def split: sum.splits)
  from al obtain xi where "iloc (x_index X) ?ps = Inr xi" and xm: "x_index Xm = xi"
    by (cases X) (auto simp: align_sample_def xdata_iloc_def x_index_def Let_def
                       split: sum.splits dest: iloc_map[where f = fst])
  moreover from iloc_map[OF y, of fst] have "iloc (map fst (snd yv)) ?ps = Inr (map fst yr)" .
  ultimately show ?thesis using idx ym by simp
qed

lemma getitem_index: "getitem df n = Inr s \<Longrightarrow> map fst s = map fst (rows df)"
  by (auto simp: getitem_def case_prod_unfold comp_def split: option.splits)

lemma getitems_index: "getitems df ns = Inr X \<Longrightarrow> x_index X = map fst (rows df)"
  by (auto simp: getitems_def x_index_def case_prod_unfold comp_def split: if_splits)

lemma aligned_index_equal:
  assumes fitted: "Logit_init fit df y_list xs al h0 = Inr (m, h)"
  shows "x_index (X_model m) = map fst (snd (y_model m))"
proof -
  from Logit_init_InrD[OF fitted] obtain y_name ys X h1 where
    y: "getitem df y_name = Inr ys"
    and X: "(case xs of [x_name] \<Rightarrow> (case getitem df x_name of Inl e \<Rightarrow> Inl e | Inr v \<Rightarrow> Inr (XSeries x_name v))
              | _ \<Rightarrow> getitems df xs) = Inr X"
    and r: "regress fit (y_name, ys) X al h0 =
             Inr ((X_model m, y_model m, results m, model_selection_stats m, log_likelihood m, odds_ratios m), h1)"
    by blast
  have "x_index X = map fst (rows df)"
    using X by (auto simp: x_index_def split: list.splits sum.splits dest: getitem_index getitems_index)
  with getitem_index[OF y] have idx: "x_index X = map fst (snd (y_name, ys))" by simp
  from regress_InrD[OF r] have "align_sample X (y_name, ys) = Inr (X_model m, y_model m)" by blast
  from align_sample_index[OF idx this] show ?thesis .
qed

section \<open>Derived statistics\<close>

text \<open>
  Claim C10: the standardized residual series of a constructed model is built from the
  Pearson residuals of the fit on the aligned sample (the results the model keeps), looked
  up over the row labels of the aligned dependent series; the fit on the standardized
  sample does not enter it.
\<close>

theorem resid_from_raw_fit:
  assumes fitted: "Logit_init fit df y_list xs al h0 = Inr (m, h)"
  shows "\<exists>fr. fit (y_model m) (X_model m) = Inr fr \<and>
              resid_pearson (results m) = resid_pearson fr \<and>
              resid_model_standardized m = reindex (resid_pearson fr) (map fst (snd (y_model m)))"
  using Logit_init_kept[OF fitted] Logit_init_derived(2)[OF fitted] by auto

theorem resid_from_raw_fit_witness:
  "resid_model_standardized model_ab = [(0, Fl 3), (1, Fl 3), (2, Fl 7), (3, Fl 7)] \<and>
   sample_engine (y_model model_ab) (X_model model_ab) =
     Inr \<lparr>params = [(''const'', Fl 0), (''a'', Fl 1), (''b'', Fl (- 1))],
          tvalues = [(''const'', Fl 0), (''a'', Fl 3), (''b'', Fl (- 2))],
          pvalues = [(''const'', Fl 1), (''a'', Fl 0.01), (''b'', Fl 0.08)],
          fittedvalues = [(0, Fl 0), (1, Fl 1), (2, Fl 2), (3, Fl 3)],
          resid_pearson = [(0, Fl 3), (1, Fl 3), (2, Fl 7), (3, Fl 7)],
          llf = Fl (- 2), prsquared = Fl 0.25, aic = Fl 10, bic = Fl 11, use_t = False\<rparr>"
  using resid_from_raw_fit[OF fitted_ab]
  by (auto simp: X_model_ab y_model_ab sample_engine_def x_columns_def columns_of_def row_sums_def
        reindex_def at_label_def Let_def)

lemma flog_fexp: "flog (fexp c) = c"
  by (cases c) simp_all

text \<open>
  Claim C8: the odds ratios of a constructed model are the exponentials of the raw
  coefficients other than the constant, under the regressors' names and in their order;
  the constant has no entry; the logarithm of each odds ratio is the raw coefficient
  (over the reals; rounding is outside the model).
\<close>

theorem odds_ratios_exp:
  assumes fitted: "Logit_init fit df y_list xs al h0 = Inr (m, h)"
  shows "odds_ratios m =
           map (\<lambda>(n, c). (n, fexp c)) (filter (\<lambda>(n, c). n \<noteq> ''const'') (params (results m))) \<and>
         ''const'' \<notin> set (map fst (odds_ratios m)) \<and>
         (\<forall>(n, c) \<in> set (params (results m)).
            n \<noteq> ''const'' \<longrightarrow> (n, fexp c) \<in> set (odds_ratios m) \<and> flog (fexp c) = c)"
proof -
  note o = Logit_init_derived(1)[OF fitted]
  show ?thesis unfolding o by (auto simp: flog_fexp image_iff)
qed

theorem odds_ratios_exp_witness:
  "odds_ratios model_ab = [(''a'', Fl (exp 1)), (''b'', Fl (exp (- 1)))] \<and>
   flog (Fl (exp 1)) = Fl 1 \<and> flog (Fl (exp (- 1))) = Fl (- 1)"
  using odds_ratios_exp[OF fitted_ab] by (simp add: params_ab)

lemma sq_dev_nonneg: "0 \<le> sq_dev vs"
  by (auto simp: sq_dev_def Let_def intro!: sum_list_nonneg)

text \<open>\<open>std() ** 2\<close> is the sample variance.\<close>

lemma square_std: "fsquare (pd_std xs) = sample_variance xs"
proof (cases "length (numbers xs) \<le> 1")
  case True
  then show ?thesis by (simp add: pd_std_def sample_variance_def)
next
  case False
  have "0 \<le> sq_dev (numbers xs) / real (length (numbers xs) - 1)"
    using sq_dev_nonneg by simp
  then show ?thesis
    using False sq_dev_nonneg[of "numbers xs"] by (simp add: pd_std_def sample_variance_def Let_def)
qed

lemma var_ystar_variance:
  "var_ystar fitted = fadd (sample_variance (map snd fitted)) (Fl (pi ^ 2 / 3))"
  by (simp add: var_ystar_def square_std)

text \<open>For a DataFrame with distinct column names, the aligned entry is the column's own.\<close>

lemma stdev_at_frame:
  assumes "distinct ns" "j < length ns"
  shows "stdev_at (XFrame ns rs) (ns ! j) = pd_std (map (\<lambda>(l, r). r ! j) rs)"
proof -
  define cs where "cs = map pd_std (columns_of (length ns) (map snd rs))"
  have len: "length ns = length cs" by (simp add: cs_def columns_of_def)
  have 1: "stdev_at (XFrame ns rs) (ns ! j) = at_label (zip ns cs) (ns ! j)"
    by (simp add: stdev_at_def x_columns_def cs_def zip_map2 case_prod_unfold)
  have 2: "map_of (zip ns cs) (ns ! j) = Some (cs ! j)"
    using assms len by (intro map_of_zip_nth) simp_all
  have 3: "cs ! j = pd_std (map (\<lambda>(l, r). r ! j) rs)"
    using assms by (simp add: cs_def columns_of_def case_prod_unfold comp_def)
  show ?thesis by (simp add: 1 at_label_def 2 3)
qed

text \<open>
  Claim C7: the table of standardized estimates of a constructed model has one row for each
  parameter of the fit on the standardized sample other than the constant, in the order of
  the parameters; these are the regressors when the engine names its parameters
  \<open>const\<close> and then the regressors. In every row the fully standardized coefficient is
  the raw coefficient times the regressor's sample standard deviation, divided by the
  square root of V, where V is the sample variance of the fitted values of the fit on the
  aligned sample plus \<open>\<pi>\<^sup>2 / 3\<close>. The standard deviation is that of the Series when
  the model has one regressor, and that of the regressor's column when the sample is a
  DataFrame with distinct column names. Arithmetic is over the reals.
\<close>

theorem coef_stdXy_long:
  assumes fitted: "Logit_init fit df y_list xs al h0 = Inr (m, h)"
  shows "(\<exists>fr2. fit (y_model m) (standardize (X_model m)) = Inr fr2 \<and>
            map fst (table_rows (results_output_standardized m))
              = filter (\<lambda>n. n \<noteq> ''const'') (map fst (params fr2)) \<and>
            (map fst (params fr2) = ''const'' # regressor_names (X_model m) \<and>
             ''const'' \<notin> set (regressor_names (X_model m)) \<longrightarrow>
               map fst (table_rows (results_output_standardized m)) = regressor_names (X_model m))) \<and>
         (\<forall>(n, row) \<in> set (table_rows (results_output_standardized m)).
            n \<noteq> ''const'' \<and>
            coef row = at_label (params (results m)) n \<and>
            stdev_X row = stdev_at (X_model m) n \<and>
            coef_stdXy row =
              fdiv (fmul (coef row) (stdev_X row))
                   (fsqrt (fadd (sample_variance (map snd (fittedvalues (results m)))) (Fl (pi ^ 2 / 3)))) \<and>
            (X_model m = XSeries x s \<longrightarrow> stdev_X row = pd_std (map snd s)) \<and>
            (X_model m = XFrame ns rs \<and> distinct ns \<and> j < length ns \<and> n = ns ! j \<longrightarrow>
               stdev_X row = pd_std (map (\<lambda>(l, r). r ! j) rs)))"
proof -
  from Logit_init_derived(5)[OF fitted] obtain fr2 where
    f2: "fit (y_model m) (standardize (X_model m)) = Inr fr2"
    and l: "map fst (table_rows (results_output_standardized m))
              = filter (\<lambda>n. n \<noteq> ''const'') (map fst (params fr2))"
    by blast
  have names: "map fst (params fr2) = ''const'' # regressor_names (X_model m) \<and>
             ''const'' \<notin> set (regressor_names (X_model m)) \<longrightarrow>
               map fst (table_rows (results_output_standardized m)) = regressor_names (X_model m)"
    unfolding l by (auto simp: filter_id_conv)
  have rows: "n \<noteq> ''const'' \<and>
            coef row = at_label (params (results m)) n \<and>
            stdev_X row = stdev_at (X_model m) n \<and>
            coef_stdXy row =
              fdiv (fmul (coef row) (stdev_X row))
                   (fsqrt (fadd (sample_variance (map snd (fittedvalues (results m)))) (Fl (pi ^ 2 / 3)))) \<and>
            (X_model m = XSeries x s \<longrightarrow> stdev_X row = pd_std (map snd s)) \<and>
            (X_model m = XFrame ns rs \<and> distinct ns \<and> j < length ns \<and> n = ns ! j \<longrightarrow>
               stdev_X row = pd_std (map (\<lambda>(l, r). r ! j) rs))"
    if row: "(n, row) \<in> set (table_rows (results_output_standardized m))" for n row
  proof -
    note r = Logit_init_derived(4)[OF fitted row]
    have s: "X_model m = XSeries x s \<longrightarrow> stdev_X row = pd_std (map snd s)"
      using r by (simp add: stdev_at_def)
    have f: "X_model m = XFrame ns rs \<and> distinct ns \<and> j < length ns \<and> n = ns ! j \<longrightarrow>
            stdev_X row = pd_std (map (\<lambda>(l, r). r ! j) rs)"
      using r by (auto simp: stdev_at_frame)
    show ?thesis using r s f by (simp add: var_ystar_variance)
  qed
  from f2 l names have "\<exists>fr2. fit (y_model m) (standardize (X_model m)) = Inr fr2 \<and>
            map fst (table_rows (results_output_standardized m))
              = filter (\<lambda>n. n \<noteq> ''const'') (map fst (params fr2)) \<and>
            (map fst (params fr2) = ''const'' # regressor_names (X_model m) \<and>
             ''const'' \<notin> set (regressor_names (X_model m)) \<longrightarrow>
               map fst (table_rows (results_output_standardized m)) = regressor_names (X_model m))"
    by blast
  moreover from rows have "\<forall>(n, row) \<in> set (table_rows (results_output_standardized m)).
            n \<noteq> ''const'' \<and>
            coef row = at_label (params (results m)) n \<and>
            stdev_X row = stdev_at (X_model m) n \<and>
            coef_stdXy row =
              fdiv (fmul (coef row) (stdev_X row))
                   (fsqrt (fadd (sample_variance (map snd (fittedvalues (results m)))) (Fl (pi ^ 2 / 3)))) \<and>
            (X_model m = XSeries x s \<longrightarrow> stdev_X row = pd_std (map snd s)) \<and>
            (X_model m = XFrame ns rs \<and> distinct ns \<and> j < length ns \<and> n = ns ! j \<longrightarrow>
               stdev_X row = pd_std (map (\<lambda>(l, r). r ! j) rs))"
    by blast
  ultimately show ?thesis by (rule conjI)
qed

lemma sample_engine_names:
  "sample_engine yv (standardize (X_model model_ab)) = Inr fr \<Longrightarrow>
     map fst (params fr) = [''const'', ''a'', ''b'']"
  by (auto simp: sample_engine_def X_model_ab standardize_def x_columns_def columns_of_def Let_def)

theorem coef_stdXy_long_witness:
  "map fst (table_rows (results_output_standardized model_ab)) = [''a'', ''b''] \<and>
   coef_stdXy (snd (hd (table_rows (results_output_standardized model_ab)))) =
     fdiv (fmul (Fl 1) (pd_std [Fl 1, Fl 2, Fl 3, Fl 4]))
          (fsqrt (fadd (sample_variance [Fl 0, Fl 1, Fl 2, Fl 3]) (Fl (pi ^ 2 / 3))))"
proof -
  let ?t = "table_rows (results_output_standardized model_ab)"
  note t = coef_stdXy_long[OF fitted_ab, where ns = "[''a'', ''b'']" and j = 0 and x = "[]" and s = "[]"
             and rs = "[(0, [Fl 1, Fl 2]), (1, [Fl 2, Fl 1]), (2, [Fl 3, Fl 4]), (3, [Fl 4, Fl 3])]"]
  from t obtain fr2 where
    f2: "sample_engine (y_model model_ab) (standardize (X_model model_ab)) = Inr fr2"
    and nm: "map fst (params fr2) = ''const'' # regressor_names (X_model model_ab) \<and>
             ''const'' \<notin> set (regressor_names (X_model model_ab)) \<longrightarrow>
               map fst ?t = regressor_names (X_model model_ab)"
    by blast
  from sample_engine_names[OF f2] nm have labels: "map fst ?t = [''a'', ''b'']"
    by (simp add: X_model_ab regressor_names_def)
  then have ne: "?t \<noteq> []" and n: "fst (hd ?t) = ''a''"
    by (auto simp: hd_map[symmetric])
  then have mem: "(''a'', snd (hd ?t)) \<in> set ?t"
    by (metis hd_in_set prod.collapse)
  from t mem have r: "coef (snd (hd ?t)) = at_label (params (results model_ab)) ''a''"
    "stdev_X (snd (hd ?t)) = stdev_at (X_model model_ab) ''a''"
    "coef_stdXy (snd (hd ?t)) =
           fdiv (fmul (coef (snd (hd ?t))) (stdev_X (snd (hd ?t))))
                (fsqrt (fadd (sample_variance (map snd (fittedvalues (results model_ab)))) (Fl (pi ^ 2 / 3))))"
    by blast+
  from r(1) have c: "coef (snd (hd ?t)) = Fl 1"
    by (simp add: params_ab at_label_def)
  from r(2) have s: "stdev_X (snd (hd ?t)) = pd_std [Fl 1, Fl 2, Fl 3, Fl 4]"
    using stdev_at_frame[of "[''a'', ''b'']" 0
            "[(0, [Fl 1, Fl 2]), (1, [Fl 2, Fl 1]), (2, [Fl 3, Fl 4]), (3, [Fl 4, Fl 3])]"]
    by (simp add: X_model_ab)
  from r(3) have "coef_stdXy (snd (hd ?t)) =
     fdiv (fmul (Fl 1) (pd_std [Fl 1, Fl 2, Fl 3, Fl 4]))
          (fsqrt (fadd (sample_variance [Fl 0, Fl 1, Fl 2, Fl 3]) (Fl (pi ^ 2 / 3))))"
    by (simp add: c s fittedvalues_ab)
  with labels show ?thesis by simp
qed

section \<open>Prediction\<close>

lemma align_sample_XSeries:
  assumes "align_sample (XSeries x v) yv = Inr (Xm, ym)"
  shows "\<exists>s. Xm = XSeries x s"
  using assms
  by (auto simp: align_sample_def xdata_iloc_def Let_def split: sum.splits)

text \<open>
  A model constructed with exactly one regressor keeps its sample as a Series, whose shape
  has no second entry: every call of \<open>predict\<close> raises IndexError.
\<close>

lemma single_regressor_predict:
  assumes "Logit_init fit df y_list [x] al h0 = Inr (m, h)"
  shows "predict m X_new ws = Inl IndexError"
proof -
  from Logit_init_InrD[OF assms] obtain y_name ys X h1 where
    X: "(case getitem df x of Inl e \<Rightarrow> Inl e | Inr v \<Rightarrow> Inr (XSeries x v)) = Inr X"
    and r: "regress fit (y_name, ys) X al h0 =
             Inr ((X_model m, y_model m, results m, model_selection_stats m, log_likelihood m, odds_ratios m), h1)"
    by auto
  from X obtain v where "X = XSeries x v" by (auto split: sum.splits)
  with regress_InrD[OF r] have "align_sample (XSeries x v) (y_name, ys) = Inr (X_model m, y_model m)"
    by auto
  from align_sample_XSeries[OF this] obtain s where "X_model m = XSeries x s" by blast
  then show ?thesis by (simp add: predict_def)
qed

text \<open>
  Claim C5 says that \<open>predict\<close> raises the shape error exactly when the regressor count of
  the input differs from that of the fit, also for a model with one regressor. On the model
  fitted on the single regressor \<open>a\<close>, an input with one regressor value does not pass
  the shape check: reading \<open>shape[1]\<close> of the Series raises IndexError, for a single
  observation and for a batch.
\<close>

theorem predict_single_regressor:
  "predict model_a (Arr1 [Fl 2]) True = Inl IndexError \<and>
   predict model_a (Arr2 1 [[Fl 2], [Fl 3]]) False = Inl IndexError"
  by (simp add: predict_def X_model_a)

text \<open>
  For a model whose sample is a DataFrame the shape check is as claimed: an input whose
  regressor count differs from that of the fit raises the value error of the check.
\<close>

lemma predict_shape_mismatch:
  assumes "X_model m = XFrame ns rs"
      and "(case X_new of Arr1 xs \<Rightarrow> length xs | Arr2 k es \<Rightarrow> k) \<noteq> length ns"
  shows "predict m X_new ws = Inl ValueError"
  using assms by (simp add: predict_def Let_def)

text \<open>
  The branch for a single observation tests both bounds: with \<open>within_sample=True\<close>, an
  observation with a value outside the range of its regressor in the sample, or with a NaN
  value, is predicted NaN.
\<close>

lemma results_predict_one:
  assumes "length ps = Suc (length xs)"
  shows "\<exists>p. results_predict ps (Arr1 (np_insert_one xs)) = Inr [p]"
  using assms by (auto simp: results_predict_def np_insert_one_def Let_def)

lemma predict_single_out_of_range:
  assumes frame: "X_model m = XFrame ns rs"
      and shape: "length xs = length ns"
      and pars: "length (params (results m)) = Suc (length ns)"
      and j: "j < length ns"
      and out: "\<not> (fle (x_min ns rs ! j) (xs ! j) \<and> fle (xs ! j) (x_max ns rs ! j))"
  shows "predict m (Arr1 xs) True = Inr [NaN]"
proof -
  let ?zs = "zip xs (zip (x_min ns rs) (x_max ns rs))"
  have len: "length ?zs = length ns"
    using shape by (simp add: x_min_def x_max_def columns_of_def)
  have "?zs ! j = (xs ! j, x_min ns rs ! j, x_max ns rs ! j)"
    using j shape by (simp add: x_min_def x_max_def columns_of_def)
  with out j len have "\<not> in_range_1d (x_min ns rs) (x_max ns rs) xs"
    by (auto simp: in_range_1d_def list_all_length)
  moreover from results_predict_one[of "params (results m)" xs] pars shape
  obtain p where "results_predict (params (results m)) (Arr1 (np_insert_one xs)) = Inr [p]"
    by auto
  ultimately show ?thesis
    using frame shape by (simp add: predict_def np_where_def Let_def)
qed

text \<open>
  Claim C1 says that with \<open>within_sample=True\<close> every example with a regressor value
  outside the range of the sample is predicted NaN, also above the maximum and in a batch.
  The maximum of both regressors in the sample of \<open>model_ab\<close> is 4. In a batch, the
  example with \<open>a = 9\<close> keeps the engine's prediction, because the branch for batches
  compares with the minimum twice; the same example as a single observation is NaN.
\<close>

theorem predict_batch_above_max:
  "x_max [''a'', ''b''] [(0, [Fl 1, Fl 2]), (1, [Fl 2, Fl 1]), (2, [Fl 3, Fl 4]), (3, [Fl 4, Fl 3])]
     = [Fl 4, Fl 4] \<and>
   predict model_ab (Arr2 2 [[Fl 2, Fl 3], [Fl 9, Fl 2]]) True
     = Inr [Fl (1 / (1 + exp 1)), Fl (1 / (1 + exp (- 7)))] \<and>
   predict model_ab (Arr1 [Fl 9, Fl 2]) True = Inr [NaN]"
  by (simp add: predict_defs X_model_ab params_ab eval_nat_numeral)

text \<open>
  Claim C9 says that an input with a NaN regressor value never makes \<open>predict\<close> raise and
  is predicted NaN, with \<open>within_sample\<close> true and false. A single observation with
  \<open>within_sample=False\<close> takes the branch for batches, where \<open>add_constant\<close> reads the
  1-d array as one column of observations: the array handed to the engine has two columns
  for three parameters and the call raises ValueError. A batch of one row with a nonzero
  value is returned by \<open>add_constant\<close> without the constant and raises in the same way.
  The single observation with \<open>within_sample=True\<close> and a batch of two rows are
  predicted NaN as the claim says.
\<close>

theorem predict_nan_observation:
  "predict model_ab (Arr1 [NaN, Fl 2]) False = Inl ValueError \<and>
   predict model_ab (Arr2 2 [[NaN, Fl 2]]) True = Inl ValueError \<and>
   predict model_ab (Arr1 [NaN, Fl 2]) True = Inr [NaN] \<and>
   predict model_ab (Arr2 2 [[NaN, Fl 2], [Fl 2, Fl 3]]) False = Inr [NaN, Fl (1 / (1 + exp 1))]"
  by (simp add: predict_defs X_model_ab params_ab eval_nat_numeral)

section \<open>Significant regressors: validation, frame, monotonicity\<close>

text \<open>Objects that exist before a call are left as they are; the store only grows.\<close>

lemma call_keeps_cells:
  "b < next_addr h \<Longrightarrow> cells (snd (significant_regressors m alpha h)) b = cells h b"
  by (auto simp: significant_regressors_def get_pvalues_def alloc_def drop_inplace_def Let_def
           split: pyval.splits sum.splits prod.splits)

lemma call_grows_store:
  "next_addr h \<le> next_addr (snd (significant_regressors m alpha h))"
  by (auto simp: significant_regressors_def get_pvalues_def alloc_def drop_inplace_def Let_def
           split: pyval.splits sum.splits prod.splits)

text \<open>The answer for a valid level, in terms of the kept p-value vector.\<close>

lemma call_valid_level:
  assumes "0 < a" "a \<le> 0.1" "pvalues (results m) < next_addr h"
  shows "fst (significant_regressors m (PyFloat (Fl a)) h) =
           (if ''const'' \<in> set (map fst (kept_pvalues m h))
            then Inr (significant (kept_pvalues m h) a) else Inl KeyError)"
  using assms
  by (auto simp: significant_regressors_def get_pvalues_def alloc_def drop_inplace_def Let_def
        drop_label_def kept_pvalues_def significant_def
           split: pyval.splits sum.splits prod.splits)

lemma significant_mono:
  assumes "a1 \<le> a2"
  shows "names_of (significant s a1) \<subseteq> names_of (significant s a2)"
proof -
  have le: "fle p (Fl a1) \<Longrightarrow> fle p (Fl a2)" for p using assms by (cases p) auto
  let ?t = "filter (\<lambda>(n, v). n \<noteq> ''const'') s"
  have sub: "set (filter (\<lambda>(n, p). fle p (Fl a1)) ?t) \<subseteq> set (filter (\<lambda>(n, p). fle p (Fl a2)) ?t)"
    using le by auto
  have n: "names_of (significant s a) = fst ` set (filter (\<lambda>(n, p). fle p (Fl a)) ?t)" for a
    by (auto simp: significant_def names_of_def Let_def filter_empty_conv)
  show ?thesis unfolding n using sub by (rule image_mono)
qed

lemma kept_after_ab:
  "kept_pvalues model_ab (snd (significant_regressors model_ab alpha heap_ab))
     = kept_pvalues model_ab heap_ab"
  by (simp add: kept_pvalues_def call_keeps_cells kept_ab)

lemma addr_after_ab:
  "pvalues (results model_ab) < next_addr (snd (significant_regressors model_ab alpha heap_ab))"
  using call_grows_store[of heap_ab model_ab alpha] by (simp add: kept_ab)




text \<open>
  Claim C3: a call of \<open>significant_regressors\<close> on a constructed model leaves every object
  of the store that existed before the call as it was, in particular the kept p-value
  vector with its constant entry: the in-place drop acts on the Series that the attribute
  access has just built. Two successive calls with the same valid alpha both succeed and
  return the same result. The engine is assumed to label p-values as it labels parameters.
  The accessors and \<open>predict\<close> are functions of the model alone and write nothing.
\<close>

theorem significant_regressors_frame:
  assumes fitted: "Logit_init fit df y_list xs al h0 = Inr (m, h)"
      and labels: "\<forall>yv X fr. fit yv X = Inr fr \<longrightarrow> map fst (pvalues fr) = map fst (params fr)"
      and valid: "0 < a" "a \<le> 0.1"
      and calls: "r1 = significant_regressors m (PyFloat (Fl a)) h"
                 "r2 = significant_regressors m (PyFloat (Fl a)) (snd r1)"
  shows "(\<exists>x. fst r1 = Inr x \<and> fst r2 = Inr x) \<and>
         kept_pvalues m (snd r1) = kept_pvalues m h \<and> kept_pvalues m (snd r2) = kept_pvalues m h \<and>
         ''const'' \<in> set (map fst (kept_pvalues m (snd r2))) \<and>
         (\<forall>b < next_addr h. cells (snd r1) b = cells h b \<and> cells (snd r2) b = cells h b)"
proof -
  from Logit_init_kept[OF fitted] obtain fr where
    f: "fit (y_model m) (X_model m) = Inr fr" and p: "params (results m) = params fr"
    and a: "pvalues (results m) < next_addr h" and k: "kept_pvalues m h = pvalues fr"
    and c: "''const'' \<in> set (map fst (params fr))" by blast
  from labels f have "map fst (pvalues fr) = map fst (params fr)" by blast
  with c k have c1: "''const'' \<in> set (map fst (kept_pvalues m h))" by simp
  have fr1: "\<forall>b < next_addr h. cells (snd r1) b = cells h b"
    using calls(1) by (simp add: call_keeps_cells)
  have n1: "next_addr h \<le> next_addr (snd r1)"
    using calls(1) by (simp add: call_grows_store)
  have k1: "kept_pvalues m (snd r1) = kept_pvalues m h"
    using fr1 a by (simp add: kept_pvalues_def)
  have a1: "pvalues (results m) < next_addr (snd r1)" using a n1 by simp
  have fr2: "\<forall>b < next_addr h. cells (snd r2) b = cells h b"
    using calls(2) fr1 n1 by (simp add: call_keeps_cells)
  have k2: "kept_pvalues m (snd r2) = kept_pvalues m h"
    using fr2 a by (simp add: kept_pvalues_def)
  have e1: "fst r1 = Inr (significant (kept_pvalues m h) a)"
    using call_valid_level[OF valid a] c1 calls(1) by simp
  have e2: "fst r2 = Inr (significant (kept_pvalues m h) a)"
    using call_valid_level[OF valid a1] c1 k1 calls(2) by simp
  show ?thesis using e1 e2 k1 k2 c1 fr1 fr2 by simp
qed

theorem significant_regressors_frame_witness:
  "fst (significant_regressors model_ab (PyFloat (Fl 0.05)) heap_ab) = Inr (Some [''a'']) \<and>
   fst (significant_regressors model_ab (PyFloat (Fl 0.05))
          (snd (significant_regressors model_ab (PyFloat (Fl 0.05)) heap_ab))) = Inr (Some [''a'']) \<and>
   kept_pvalues model_ab (snd (significant_regressors model_ab (PyFloat (Fl 0.05))
          (snd (significant_regressors model_ab (PyFloat (Fl 0.05)) heap_ab))))
     = [(''const'', Fl 1), (''a'', Fl 0.01), (''b'', Fl 0.08)]"
proof -
  have e: "fst (significant_regressors model_ab (PyFloat (Fl 0.05)) heap_ab) = Inr (Some [''a''])"
    using call_valid_level[of "0.05" model_ab heap_ab]
    by (simp add: kept_ab significant_def)
  show ?thesis
    using significant_regressors_frame[OF fitted_ab sample_engine_labels, of "0.05", OF _ _ refl refl] e
    by (auto simp: kept_ab)
qed

text \<open>
  Claim C6: for a constructed model and valid levels \<open>a1 < a2\<close> in (0, 0.1], the names
  returned for \<open>a1\<close> are among the names returned for \<open>a2\<close> by the next call
  (\<open>None\<close> counts as no name).
\<close>

theorem significant_regressors_monotone:
  assumes fitted: "Logit_init fit df y_list xs al h0 = Inr (m, h)"
      and valid: "0 < a1" "a1 < a2" "a2 \<le> 0.1"
      and first: "fst (significant_regressors m (PyFloat (Fl a1)) h) = Inr x1"
      and second: "fst (significant_regressors m (PyFloat (Fl a2))
                         (snd (significant_regressors m (PyFloat (Fl a1)) h))) = Inr x2"
  shows "names_of x1 \<subseteq> names_of x2"
proof -
  let ?h1 = "snd (significant_regressors m (PyFloat (Fl a1)) h)"
  from Logit_init_kept[OF fitted] have a: "pvalues (results m) < next_addr h" by blast
  have v1: "0 < a1" "a1 \<le> 0.1" and v2: "0 < a2" "a2 \<le> 0.1" using valid by simp_all
  have k1: "kept_pvalues m ?h1 = kept_pvalues m h"
    using a by (simp add: kept_pvalues_def call_keeps_cells)
  have a1: "pvalues (results m) < next_addr ?h1"
    using a call_grows_store[of h m "PyFloat (Fl a1)"] by simp
  from first call_valid_level[OF v1 a]
  have x1: "x1 = significant (kept_pvalues m h) a1" by (auto split: if_splits)
  from second call_valid_level[OF v2 a1] k1
  have x2: "x2 = significant (kept_pvalues m h) a2" by (auto split: if_splits)
  show ?thesis unfolding x1 x2 using valid by (intro significant_mono) simp
qed

lemma sig_ab_001: "fst (significant_regressors model_ab (PyFloat (Fl 0.01)) heap_ab) = Inr (Some [''a''])"
  using call_valid_level[of "0.01" model_ab heap_ab]
  by (simp add: kept_ab significant_def)

lemma sig_ab_01_after:
  "fst (significant_regressors model_ab (PyFloat (Fl 0.1))
          (snd (significant_regressors model_ab (PyFloat (Fl 0.01)) heap_ab))) = Inr (Some [''a'', ''b''])"
  using call_valid_level[OF _ _ addr_after_ab, of "0.1" "PyFloat (Fl 0.01)"]
  by (simp add: kept_after_ab kept_ab significant_def)

theorem significant_regressors_monotone_witness:
  "names_of (Some [''a'']) \<subseteq> names_of (Some [''a'', ''b'']) \<and>
   fst (significant_regressors model_ab (PyFloat (Fl 0.01)) heap_ab) = Inr (Some [''a'']) \<and>
   fst (significant_regressors model_ab (PyFloat (Fl 0.1))
          (snd (significant_regressors model_ab (PyFloat (Fl 0.01)) heap_ab))) = Inr (Some [''a'', ''b''])"
  using significant_regressors_monotone[OF fitted_ab _ _ _ sig_ab_001 sig_ab_01_after]
        sig_ab_001 sig_ab_01_after
  by simp

end
